theory Spec2Isabelle
  imports Complex_Main "HOL-Library.Char_ord" "HOL-Library.List_Lexorder"
begin

section \<open>Python values, strings and paths\<close>

text \<open>
  The module \<^verbatim>\<open>amlb/results.py\<close> computes with Python objects. A scalar held in a score
  record or in a cell of a data frame is a \<open>pyval\<close>: \<open>None\<close>, a boolean, an integer, a
  finite float (the real number it denotes), the float NaN, a string, or an opaque
  object known by the name of its type only (a matrix, a list, ...).
\<close>

datatype pyval = PNone | PBool bool | PInt int | PFloat real | PNaN | PStr string | PObj string

text \<open>The exceptions the modelled code can raise, each with its message \<^verbatim>\<open>str(e)\<close>.\<close>

datatype error = TypeError string | KeyError string | ValueError string

text \<open>\<^verbatim>\<open>str(n)\<close> and \<^verbatim>\<open>int(s)\<close> on decimal numerals.\<close>

definition digit_char :: "nat \<Rightarrow> char" where
  "digit_char d = ''0123456789'' ! d"

function str_nat :: "nat \<Rightarrow> string" where
  "str_nat n = (if n < 10 then [digit_char n] else str_nat (n div 10) @ [digit_char (n mod 10)])"
  by pat_completeness auto
termination
  by (relation "measure id") auto

definition str_int :: "int \<Rightarrow> string" where
  "str_int i = (if i < 0 then CHR ''-'' # str_nat (nat (- i)) else str_nat (nat i))"

definition int_of_digits :: "string \<Rightarrow> int" where
  "int_of_digits s = foldl (\<lambda>a c. 10 * a + (int (of_char c) - 48)) 0 s"

text \<open>
  \<^verbatim>\<open>os.path.split\<close> (posixpath): the tail is what follows the last slash; the head is what
  precedes it, with its trailing slashes removed unless it consists of slashes only.
\<close>

definition rstrip_slash :: "string \<Rightarrow> string" where
  "rstrip_slash s = rev (dropWhile (\<lambda>c. c = CHR ''/'') (rev s))"

definition path_split :: "string \<Rightarrow> string \<times> string" where
  "path_split p =
     (let tail = rev (takeWhile (\<lambda>c. c \<noteq> CHR ''/'') (rev p));
          head = take (length p - length tail) p
      in (if head \<noteq> [] \<and> head \<noteq> replicate (length head) (CHR ''/'') then rstrip_slash head else head,
          tail))"

text \<open>\<^verbatim>\<open>os.path.join\<close> (posixpath), one component at a time.\<close>

definition path_join2 :: "string \<Rightarrow> string \<Rightarrow> string" where
  "path_join2 a b =
     (if b \<noteq> [] \<and> hd b = CHR ''/'' then b
      else if a = [] \<or> last a = CHR ''/'' then a @ b
      else a @ ''/'' @ b)"

definition path_join :: "string \<Rightarrow> string list \<Rightarrow> string" where
  "path_join a bs = foldl path_join2 a bs"

section \<open>Regular expressions of the naming conventions\<close>

text \<open>
  The patterns of \<^verbatim>\<open>Scoreboard.from_file\<close> and \<^verbatim>\<open>TaskResult.score_from_predictions_file\<close>
  are built from single characters, the classes \<^verbatim>\<open>[\w\-]\<close> and \<^verbatim>\<open>\d\<close>, the greedy and
  the lazy \<^verbatim>\<open>+\<close> on a class, named groups and concatenation. Python's \<^verbatim>\<open>re\<close> is a
  backtracking matcher: \<open>rmatch\<close> lists, in the order in which the matcher tries them,
  the ways a pattern matches a prefix of the input, each with the rest of the input and
  the groups captured. Characters are ASCII: \<^verbatim>\<open>\w\<close> is a letter, a digit or the
  underscore.
\<close>

datatype cclass = Lit char | AnyChar | WordDash | Digit

definition is_digit :: "char \<Rightarrow> bool" where
  "is_digit c = (let n = (of_char c :: nat) in 48 \<le> n \<and> n \<le> 57)"

definition is_word :: "char \<Rightarrow> bool" where
  "is_word c = (let n = (of_char c :: nat) in
      (48 \<le> n \<and> n \<le> 57) \<or> (65 \<le> n \<and> n \<le> 90) \<or> (97 \<le> n \<and> n \<le> 122) \<or> n = 95)"

fun in_class :: "cclass \<Rightarrow> char \<Rightarrow> bool" where
  "in_class (Lit a) c = (c = a)"
| "in_class AnyChar c = (c \<noteq> CHR 0x0A)"
| "in_class WordDash c = (is_word c \<or> c = CHR ''-'')"
| "in_class Digit c = is_digit c"

datatype regex =
    Eps
  | One cclass
  | Plus cclass
  | PlusLazy cclass
  | Seq regex regex
  | Named string regex

type_synonym groups = "(string \<times> string) list"

fun rmatch :: "regex \<Rightarrow> string \<Rightarrow> groups \<Rightarrow> (string \<times> groups) list" where
  "rmatch Eps s g = [(s, g)]"
| "rmatch (One c) s g = (case s of [] \<Rightarrow> [] | x # xs \<Rightarrow> if in_class c x then [(xs, g)] else [])"
| "rmatch (Plus c) s g =
     map (\<lambda>k. (drop k s, g)) (rev [1 ..< Suc (length (takeWhile (in_class c) s))])"
| "rmatch (PlusLazy c) s g =
     map (\<lambda>k. (drop k s, g)) [1 ..< Suc (length (takeWhile (in_class c) s))]"
| "rmatch (Seq a b) s g = concat (map (\<lambda>(s', g'). rmatch b s' g') (rmatch a s g))"
| "rmatch (Named nm r) s g =
     map (\<lambda>(s', g'). (s', (nm, take (length s - length s') s) # g')) (rmatch r s g)"

text \<open>\<^verbatim>\<open>re.fullmatch\<close>: the first way that consumes the whole input; \<^verbatim>\<open>re.match\<close>: the first way.\<close>

definition fullmatch :: "regex \<Rightarrow> string \<Rightarrow> groups option" where
  "fullmatch r s = map_option snd (find (\<lambda>(rest, g). rest = []) (rmatch r s []))"

definition match_prefix :: "regex \<Rightarrow> string \<Rightarrow> groups option" where
  "match_prefix r s = (case rmatch r s [] of [] \<Rightarrow> None | (rest, g) # _ \<Rightarrow> Some g)"

definition cat :: "regex list \<Rightarrow> regex" where
  "cat rs = foldr Seq rs Eps"

text \<open>
  A text placed in a pattern unescaped: the separator \<^verbatim>\<open>{sep}\<close> that the f-strings
  interpolate, the keywords \<^verbatim>\<open>benchmark\<close> and \<^verbatim>\<open>task\<close>, and the file name
  \<^verbatim>\<open>results.csv\<close> that \<^verbatim>\<open>from_file\<close> uses as a pattern. A dot matches any character but
  the newline; every other character stands for itself (a separator holding another
  metacharacter of \<^verbatim>\<open>re\<close> is outside this model).
\<close>

definition re_text :: "string \<Rightarrow> regex" where
  "re_text t = cat (map (\<lambda>c. One (if c = CHR ''.'' then AnyChar else Lit c)) t)"

text \<open>\<^verbatim>\<open>\.csv\<close>: an escaped dot and three letters.\<close>

definition dot_csv :: regex where
  "dot_csv = cat [One (Lit (CHR ''.'')), One (Lit (CHR ''c'')), One (Lit (CHR ''s'')), One (Lit (CHR ''v''))]"

section \<open>Scoreboard: the scope and its file name\<close>

text \<open>
  A name of the scope is \<^verbatim>\<open>None\<close> (the default of the constructor), \<^verbatim>\<open>False\<close> (what
  \<^verbatim>\<open>from_file\<close> stores for a group its pattern does not have:
  \<^verbatim>\<open>'task' in d and d['task']\<close>) or a string.
\<close>

datatype name = NoneName | FalseName | Name string

fun name_set :: "name \<Rightarrow> bool" where
  "name_set (Name s) = (s \<noteq> [])"
| "name_set _ = False"

fun name_str :: "name \<Rightarrow> string" where
  "name_str (Name s) = s"
| "name_str NoneName = ''None''"
| "name_str FalseName = ''False''"

record scope =
  framework_name :: name
  benchmark_name :: name
  task_name :: name
  scores_dir :: string

text \<open>
  \<^verbatim>\<open>rconfig()\<close>, \<^verbatim>\<open>rget()\<close>, \<^verbatim>\<open>output_dirs\<close> and \<^verbatim>\<open>datetime_iso\<close> live outside this
  module: the settings they supply are a parameter.
\<close>

record config =
  token_separator :: string
  default_scores_dir :: string
  default_predictions_dir :: string
  run_mode :: pyval
  app_version :: pyval
  utc_now :: pyval
  error_max_length :: int

definition results_file :: string where
  "results_file = ''results.csv''"

text \<open>\<^verbatim>\<open>Scoreboard._score_file\<close> (lines 171-188).\<close>

definition score_file_name :: "string \<Rightarrow> 'a scope_scheme \<Rightarrow> string" where
  "score_file_name sep b =
     (if name_set (framework_name b) then
        (if name_set (task_name b) then
           name_str (framework_name b) @ sep @ ''task_'' @ name_str (task_name b) @ ''.csv''
         else if name_set (benchmark_name b) then
           name_str (framework_name b) @ sep @ ''benchmark_'' @ name_str (benchmark_name b) @ ''.csv''
         else name_str (framework_name b) @ ''.csv'')
      else
        (if name_set (task_name b) then ''task_'' @ name_str (task_name b) @ ''.csv''
         else if name_set (benchmark_name b) then ''benchmark_'' @ name_str (benchmark_name b) @ ''.csv''
         else results_file))"

definition score_file :: "config \<Rightarrow> 'a scope_scheme \<Rightarrow> string" where
  "score_file cfg b = path_join (scores_dir b) [score_file_name (token_separator cfg) b]"

text \<open>The six patterns of \<^verbatim>\<open>Scoreboard.from_file\<close> (lines 52-59), in its order.\<close>

definition scoreboard_patterns :: "string \<Rightarrow> regex list" where
  "scoreboard_patterns sep =
     [ re_text results_file,
       cat [Named ''framework'' (Plus WordDash), re_text sep, re_text ''benchmark'', re_text sep,
            Named ''benchmark'' (Plus WordDash), dot_csv],
       cat [re_text ''benchmark'', re_text sep, Named ''benchmark'' (Plus WordDash), dot_csv],
       cat [Named ''framework'' (Plus WordDash), re_text sep, re_text ''task'', re_text sep,
            Named ''task'' (Plus WordDash), dot_csv],
       cat [re_text ''task'', re_text sep, Named ''task'' (Plus WordDash), dot_csv],
       cat [Named ''framework'' (Plus WordDash), dot_csv] ]"

text \<open>The loop over the patterns: the first that matches the whole basename wins.\<close>

fun first_match :: "regex list \<Rightarrow> string \<Rightarrow> groups option" where
  "first_match [] s = None"
| "first_match (p # ps) s = (case fullmatch p s of Some d \<Rightarrow> Some d | None \<Rightarrow> first_match ps s)"

definition group_or_false :: "groups \<Rightarrow> string \<Rightarrow> name" where
  "group_or_false d k = (case map_of d k of None \<Rightarrow> FalseName | Some s \<Rightarrow> Name s)"

text \<open>
  \<^verbatim>\<open>Scoreboard.from_file\<close> (lines 45-75): \<open>None\<close> when no pattern matches; otherwise the
  scope of the board it constructs. The constructor replaces an empty or absent
  directory by the configured one (line 111).
\<close>

definition from_file :: "config \<Rightarrow> string \<Rightarrow> scope option" where
  "from_file cfg path =
     (let (folder, basename) = path_split path in
      case first_match (scoreboard_patterns (token_separator cfg)) basename of
        None \<Rightarrow> None
      | Some d \<Rightarrow>
          Some \<lparr> framework_name = group_or_false d ''framework'',
                 benchmark_name = group_or_false d ''benchmark'',
                 task_name = group_or_false d ''task'',
                 scores_dir = (if path = basename \<or> folder = [] then default_scores_dir cfg else folder) \<rparr>)"

section \<open>TaskResult: the identity read from a predictions path\<close>

text \<open>
  The folder pattern of \<^verbatim>\<open>score_from_predictions_file\<close> (line 315) is an \<^verbatim>\<open>rf\<close>-string:
  Python formats \<^verbatim>\<open>{sep}\<close>, and also \<^verbatim>\<open>{8}\<close> and \<^verbatim>\<open>{6}\<close>, whose values are the
  texts \<^verbatim>\<open>8\<close> and \<^verbatim>\<open>6\<close>. The pattern that \<^verbatim>\<open>re\<close> receives therefore ends in
  \<^verbatim>\<open>(<sep>(?P<datetime>\d8T\d6))/\<close>: a digit, the character 8, the letter T, a digit and
  the character 6. The group around the datetime is followed by no \<^verbatim>\<open>?\<close>.
\<close>

definition folder_pat :: "string \<Rightarrow> regex" where
  "folder_pat sep =
     cat [ One (Lit (CHR ''/'')),
           Named ''framework'' (PlusLazy WordDash), re_text sep,
           Named ''benchmark'' (Plus WordDash), re_text sep,
           Named ''constraint'' (Plus WordDash), re_text sep,
           Named ''mode'' (Plus WordDash),
           cat [ re_text sep,
                 Named ''datetime'' (cat [One Digit, One (Lit (CHR ''8'')), One (Lit (CHR ''T'')),
                                         One Digit, One (Lit (CHR ''6''))]) ],
           One (Lit (CHR ''/'')) ]"

definition file_pat :: "string \<Rightarrow> regex" where
  "file_pat sep =
     cat [ Named ''framework'' (PlusLazy WordDash), re_text sep,
           Named ''task'' (Plus WordDash), re_text sep,
           Named ''fold'' (Plus Digit), dot_csv ]"

text \<open>
  \<open>folder_g\<close> (lines 313-318): the groups of the folder when the pattern matches at its
  start, and the dictionary whose every entry is \<^verbatim>\<open>None\<close> otherwise.
\<close>

definition folder_groups :: "string \<Rightarrow> string \<Rightarrow> string \<rightharpoonup> string" where
  "folder_groups sep folder =
     (if folder \<noteq> [] then
        (case match_prefix (folder_pat sep) folder of Some g \<Rightarrow> map_of g | None \<Rightarrow> Map.empty)
      else Map.empty)"

record identity =
  id_framework :: string
  id_task :: string
  id_fold :: int
  id_constraint :: "string option"
  id_benchmark :: "string option"

text \<open>
  Lines 311-331 of \<^verbatim>\<open>score_from_predictions_file\<close>: \<open>None\<close> is the early return after
  \<^verbatim>\<open>log.error\<close>; otherwise the local variables \<^verbatim>\<open>framework_name\<close>, \<^verbatim>\<open>task_name\<close>,
  \<^verbatim>\<open>fold\<close>, \<^verbatim>\<open>constraint\<close> and \<^verbatim>\<open>benchmark\<close>. The groups \<^verbatim>\<open>mode\<close> and \<^verbatim>\<open>datetime\<close>
  of the folder are read nowhere.
\<close>

definition path_identity :: "string \<Rightarrow> string \<Rightarrow> identity option" where
  "path_identity sep path =
     (let (folder, basename) = path_split path;
          folder_g = folder_groups sep folder
      in case fullmatch (file_pat sep) basename of
           None \<Rightarrow> None
         | Some file_g \<Rightarrow>
             (case (map_of file_g ''framework'', map_of file_g ''task'', map_of file_g ''fold'') of
                (Some fw, Some t, Some f) \<Rightarrow>
                  Some \<lparr> id_framework = fw, id_task = t, id_fold = int_of_digits f,
                         id_constraint = folder_g ''constraint'',
                         id_benchmark = folder_g ''benchmark'' \<rparr>
              | _ \<Rightarrow> None))"

section \<open>Result: the variants and evaluate\<close>

text \<open>
  A data frame: its column labels and its rows, each row with one cell per column. The
  labels of a frame are taken to be distinct, and a cell to hold a scalar.
\<close>

record frame =
  columns :: "string list"
  rows :: "pyval list list"

datatype dataset_type = Binary | Multiclass | Regression

text \<open>
  The four classes of results. A value stands for an object whose constructor has
  returned: \<open>NoResult info\<close>, \<open>ErrorResult info\<close>, and the two scored variants with the
  predictions frame and \<open>info\<close>.
\<close>

datatype result =
    NoResult "string option"
  | ErrorResult string
  | ClassificationResult frame "string option"
  | RegressionResult frame "string option"

fun info :: "result \<Rightarrow> pyval" where
  "info (NoResult i) = (case i of None \<Rightarrow> PNone | Some s \<Rightarrow> PStr s)"
| "info (ErrorResult s) = PStr s"
| "info (ClassificationResult df i) = (case i of None \<Rightarrow> PNone | Some s \<Rightarrow> PStr s)"
| "info (RegressionResult df i) = (case i of None \<Rightarrow> PNone | Some s \<Rightarrow> PStr s)"

text \<open>
  \<^verbatim>\<open>self.type\<close>: \<^verbatim>\<open>None\<close> from \<^verbatim>\<open>Result.__init__\<close>; binary when the frame has exactly two
  columns before \<^verbatim>\<open>predictions\<close> and \<^verbatim>\<open>truth\<close> (line 461); regression (line 510).
\<close>

fun rtype :: "result \<Rightarrow> dataset_type option" where
  "rtype (NoResult i) = None"
| "rtype (ErrorResult s) = None"
| "rtype (ClassificationResult df i) =
     Some (if length (columns df) - 2 = 2 then Binary else Multiclass)"
| "rtype (RegressionResult df i) = Some Regression"

text \<open>\<^verbatim>\<open>str(self.type)\<close>, as the f-string of line 432 prints a member of the enumeration.\<close>

fun type_str :: "dataset_type option \<Rightarrow> string" where
  "type_str None = ''None''"
| "type_str (Some Binary) = ''DatasetType.binary''"
| "type_str (Some Multiclass) = ''DatasetType.multiclass''"
| "type_str (Some Regression) = ''DatasetType.regression''"

text \<open>
  \<^verbatim>\<open>ErrorResult.__init__\<close> (lines 447-451): the message is the qualified name of the
  error's class, a colon and its text, cut to \<^verbatim>\<open>error_max_length\<close> with three dots.
  \<open>py_prefix k\<close> is the slice \<^verbatim>\<open>[:k]\<close>, which counts from the end when \<open>k\<close> is negative.
\<close>

definition py_prefix :: "int \<Rightarrow> 'a list \<Rightarrow> 'a list" where
  "py_prefix k xs = (if 0 \<le> k then take (nat k) xs else take (length xs - nat (- k)) xs)"

definition error_result :: "int \<Rightarrow> string \<Rightarrow> string \<Rightarrow> result" where
  "error_result max_len qualname txt =
     (let msg = qualname @ '': '' @ txt
      in ErrorResult (if int (length msg) \<le> max_len then msg else py_prefix (max_len - 3) msg @ ''...''))"

subsection \<open>The attributes that hasattr finds\<close>

text \<open>
  \<^verbatim>\<open>evaluate\<close> looks the metric up among the attributes of the object. Those are the
  fields the constructors set (each here with the name of the type of its value, which
  is what the \<^verbatim>\<open>TypeError\<close> of calling it prints), the methods of its classes, and the
  attributes every Python object has (those of Python 3.6 to 3.10, the versions that have
  the \<^verbatim>\<open>np.float\<close> of line 143).
\<close>

definition info_type :: "string option \<Rightarrow> string" where
  "info_type i = (case i of None \<Rightarrow> ''NoneType'' | Some s \<Rightarrow> ''str'')"

definition result_fields :: "string option \<Rightarrow> (string \<times> string) list" where
  "result_fields i =
     [(''df'', ''DataFrame''), (''info'', info_type i), (''truth'', ''numpy.ndarray''),
      (''predictions'', ''numpy.ndarray''), (''target'', ''Feature''), (''type'', ''DatasetType'')]"

definition object_fields :: "(string \<times> string) list" where
  "object_fields =
     [(''__dict__'', ''dict''), (''__doc__'', ''NoneType''), (''__module__'', ''str''),
      (''__weakref__'', ''NoneType'')]"

fun attr_fields :: "result \<Rightarrow> (string \<times> string) list" where
  "attr_fields (ClassificationResult df i) =
     result_fields i @
     [(''classes'', ''numpy.ndarray''), (''probabilities'', ''numpy.ndarray''),
      (''labels'', ''numpy.ndarray'')] @ object_fields"
| "attr_fields (RegressionResult df i) = result_fields i @ object_fields"
| "attr_fields (NoResult i) =
     [(''df'', ''NoneType''), (''info'', info_type i), (''truth'', ''NoneType''),
      (''predictions'', ''NoneType''), (''target'', ''NoneType''), (''type'', ''NoneType''),
      (''missing_result'', ''float'')] @ object_fields"
| "attr_fields (ErrorResult s) =
     [(''df'', ''NoneType''), (''info'', ''str''), (''truth'', ''NoneType''),
      (''predictions'', ''NoneType''), (''target'', ''NoneType''), (''type'', ''NoneType''),
      (''missing_result'', ''float'')] @ object_fields"

definition object_methods :: "string list" where
  "object_methods =
     [''__class__'', ''__delattr__'', ''__dir__'', ''__eq__'', ''__format__'', ''__ge__'',
      ''__getattribute__'', ''__gt__'', ''__hash__'', ''__init_subclass__'', ''__le__'',
      ''__lt__'', ''__ne__'', ''__new__'', ''__reduce__'', ''__reduce_ex__'', ''__repr__'',
      ''__setattr__'', ''__sizeof__'', ''__str__'', ''__subclasshook__'']"

text \<open>The metric computations each class defines (lines 466-497 and 512-528).\<close>

fun metric_methods :: "result \<Rightarrow> string list" where
  "metric_methods (ClassificationResult df i) =
     [''acc'', ''balacc'', ''auc'', ''cm'', ''mean_pce'', ''max_pce'', ''f1'', ''logloss'']"
| "metric_methods (RegressionResult df i) =
     [''mae'', ''mse'', ''msle'', ''rmse'', ''rmsle'', ''r2'']"
| "metric_methods (NoResult i) = []"
| "metric_methods (ErrorResult s) = []"

fun helper_methods :: "result \<Rightarrow> string list" where
  "helper_methods (ClassificationResult df i) = [''_per_class_errors'', ''_autoencode'']"
| "helper_methods _ = []"

definition methods :: "result \<Rightarrow> string list" where
  "methods r = metric_methods r @ helper_methods r @ [''__init__'', ''evaluate''] @ object_methods"

text \<open>
  What calling a method with no argument does: it returns a value, or raises an
  \<^verbatim>\<open>Exception\<close> whose text is given. The metric functions of \<^verbatim>\<open>datautils\<close>, the label
  encoder of \<^verbatim>\<open>data\<close> and Python's own methods decide that; they are not part of this
  module, so the outcome of each call is a parameter \<open>calls\<close> of the model. The one
  outcome the module itself fixes is \<^verbatim>\<open>auc\<close> on a result that is not binary (lines
  473-476): NaN, without an exception.
\<close>

datatype outcome = Returns pyval | Raises string

type_synonym calls = "result \<Rightarrow> string \<Rightarrow> outcome"

definition method_call :: "calls \<Rightarrow> result \<Rightarrow> string \<Rightarrow> outcome" where
  "method_call calls r m =
     (if m = ''auc'' \<and> rtype r \<noteq> Some Binary then Returns PNaN else calls r m)"

text \<open>\<^verbatim>\<open>hasattr(self, metric)\<close> for a string \<open>metric\<close>.\<close>

definition hasattr :: "result \<Rightarrow> string \<Rightarrow> bool" where
  "hasattr r m = (map_of (attr_fields r) m \<noteq> None \<or> m \<in> set (methods r))"

definition not_callable :: "string \<Rightarrow> string" where
  "not_callable tn = [CHR 0x27] @ tn @ [CHR 0x27] @ '' object is not callable''"

text \<open>
  \<^verbatim>\<open>getattr(self, metric)()\<close> on an attribute the object has: calling a field raises
  \<^verbatim>\<open>TypeError\<close>, since its value is not callable; a method does what \<open>method_call\<close> says.
\<close>

definition call_attr :: "calls \<Rightarrow> result \<Rightarrow> string \<Rightarrow> outcome" where
  "call_attr calls r m =
     (case map_of (attr_fields r) m of
        Some tn \<Rightarrow> Raises (not_callable tn)
      | None \<Rightarrow> method_call calls r m)"

text \<open>
  \<^verbatim>\<open>evaluate\<close>: \<^verbatim>\<open>NoResult.evaluate\<close> (lines 441-442, inherited by \<^verbatim>\<open>ErrorResult\<close>) and
  \<^verbatim>\<open>Result.evaluate\<close> (lines 423-432). The metric is \<open>Some m\<close> for the string \<open>m\<close> and
  \<open>None\<close> for an object that is not a string, on which \<^verbatim>\<open>hasattr\<close> raises \<^verbatim>\<open>TypeError\<close>
  before the \<^verbatim>\<open>try\<close> block is entered. \<open>Inl\<close> is an exception that leaves \<^verbatim>\<open>evaluate\<close>;
  \<open>Inr\<close> is the pair it returns.
\<close>

fun evaluate :: "calls \<Rightarrow> result \<Rightarrow> string option \<Rightarrow> error + (pyval \<times> string option)" where
  "evaluate calls (NoResult i) metric = Inr (PNaN, None)"
| "evaluate calls (ErrorResult s) metric = Inr (PNaN, None)"
| "evaluate calls r None = Inl (TypeError ''hasattr(): attribute name must be string'')"
| "evaluate calls r (Some m) =
     (if hasattr r m then
        (case call_attr calls r m of
           Returns v \<Rightarrow> Inr (v, None)
         | Raises msg \<Rightarrow> Inr (PNaN, Some (''scoring '' @ m @ '': '' @ msg)))
      else Inr (PNaN, Some (''Unsupported metric '' @ m @ '' for '' @ type_str (rtype r))))"

section \<open>TaskResult: loading and scoring\<close>

text \<open>
  The run metadata that \<^verbatim>\<open>json_load\<close> returns, by the fields \<^verbatim>\<open>compute_scores\<close> reads.
  A field the document does not hold reads as \<^verbatim>\<open>None\<close>; \<open>md_version = None\<close> says that
  the key \<^verbatim>\<open>version\<close> is absent (line 369 tests it); \<open>md_framework_params\<close> is the
  \<^verbatim>\<open>repr\<close> of \<^verbatim>\<open>framework_params\<close> when that is set and not empty.
\<close>

record metadata =
  md_framework :: pyval
  md_version :: "pyval option"
  md_framework_version :: pyval
  md_framework_params :: "string option"
  md_seed :: pyval
  md_metric :: "string option"
  md_metrics :: "string list option"

text \<open>\<^verbatim>\<open>Namespace(lambda: None)\<close> (line 220): every field reads as \<^verbatim>\<open>None\<close>.\<close>

definition empty_metadata :: metadata where
  "empty_metadata =
     \<lparr> md_framework = PNone, md_version = None, md_framework_version = PNone,
       md_framework_params = None, md_seed = PNone, md_metric = None, md_metrics = None \<rparr>"

text \<open>
  The files a \<^verbatim>\<open>TaskResult\<close> reads. A predictions file is there or not; when it is
  there, the \<^verbatim>\<open>try\<close> block of \<^verbatim>\<open>load_predictions\<close> (reading, the validation of the test
  mode, the constructor) either raises an exception with a text or yields the frame
  read. A metadata file, when there, holds a JSON document.
\<close>

record disk =
  predictions_files :: "string \<rightharpoonup> (string + frame)"
  metadata_files :: "string \<rightharpoonup> metadata"

record task =
  task_id :: pyval
  task_name_of :: string

record task_result =
  tr_task :: task
  tr_fold :: int
  tr_constraint :: pyval
  tr_predictions_dir :: string

text \<open>\<^verbatim>\<open>TaskResult.__init__\<close> (lines 345-350): the configured directory when none is given.\<close>

definition task_result_init :: "config \<Rightarrow> task \<Rightarrow> int \<Rightarrow> pyval \<Rightarrow> string \<Rightarrow> task_result" where
  "task_result_init cfg task_def fold_no constraint predictions_dir =
     \<lparr> tr_task = task_def, tr_fold = fold_no, tr_constraint = constraint,
       tr_predictions_dir =
         (if predictions_dir \<noteq> [] then predictions_dir else default_predictions_dir cfg) \<rparr>"

definition predictions_file :: "task_result \<Rightarrow> string" where
  "predictions_file self =
     path_join (tr_predictions_dir self)
       [task_name_of (tr_task self), str_int (tr_fold self), ''predictions.csv'']"

definition metadata_file :: "task_result \<Rightarrow> string" where
  "metadata_file self =
     path_join (tr_predictions_dir self)
       [task_name_of (tr_task self), str_int (tr_fold self), ''metadata.json'']"

text \<open>\<^verbatim>\<open>TaskResult.load_predictions\<close> (lines 195-211).\<close>

definition load_predictions :: "config \<Rightarrow> disk \<Rightarrow> string \<Rightarrow> result" where
  "load_predictions cfg d file =
     (case predictions_files d file of
        Some (Inr df) \<Rightarrow>
          if length (columns df) > 2 then ClassificationResult df None else RegressionResult df None
      | Some (Inl txt) \<Rightarrow> error_result (error_max_length cfg) ''ResultError'' txt
      | None \<Rightarrow> NoResult (Some ''Missing predictions.''))"

text \<open>\<^verbatim>\<open>TaskResult.load_metadata\<close> (lines 214-220).\<close>

definition load_metadata :: "disk \<Rightarrow> string \<Rightarrow> metadata" where
  "load_metadata d file = (case metadata_files d file of Some md \<Rightarrow> md | None \<Rightarrow> empty_metadata)"

definition get_result :: "config \<Rightarrow> disk \<Rightarrow> task_result \<Rightarrow> result" where
  "get_result cfg d self = load_predictions cfg d (predictions_file self)"

definition get_metadata :: "disk \<Rightarrow> task_result \<Rightarrow> metadata" where
  "get_metadata d self = load_metadata d (metadata_file self)"

text \<open>
  A \<^verbatim>\<open>Namespace\<close> of scores is a dictionary from names to values: \<^verbatim>\<open>scores.x\<close> and
  \<^verbatim>\<open>scores['x']\<close> read the same entry.
\<close>

type_synonym namespace = "string \<rightharpoonup> pyval"

text \<open>The eighteen fixed columns of a score record (lines 124-125).\<close>

definition fixed_cols :: "string list" where
  "fixed_cols =
     [''id'', ''task'', ''framework'', ''constraint'', ''fold'', ''result'', ''metric'', ''mode'',
      ''version'', ''params'', ''app_version'', ''utc'', ''duration'', ''training_duration'',
      ''predict_duration'', ''models_count'', ''seed'', ''info'']"

definition required_metares :: "string list" where
  "required_metares = [''training_duration'', ''predict_duration'', ''models_count'']"

text \<open>
  \<^verbatim>\<open>do_score\<close> (lines 386-392): the score of one metric, and the list of scoring errors
  with the error of this metric added when it is not empty.
\<close>

definition do_score ::
  "calls \<Rightarrow> result \<Rightarrow> string option \<Rightarrow> string list \<Rightarrow> error + (pyval \<times> string list)" where
  "do_score calls r metric errs =
     (case evaluate calls r metric of
        Inl e \<Rightarrow> Inl e
      | Inr (score, err) \<Rightarrow>
          Inr (score, case err of None \<Rightarrow> errs | Some txt \<Rightarrow> if txt \<noteq> [] then errs @ [txt] else errs))"

text \<open>The loop of lines 394-395 over the declared metrics.\<close>

fun score_metrics ::
  "calls \<Rightarrow> result \<Rightarrow> string list \<Rightarrow> namespace \<Rightarrow> string list \<Rightarrow> error + (namespace \<times> string list)" where
  "score_metrics calls r [] scores errs = Inr (scores, errs)"
| "score_metrics calls r (m # ms) scores errs =
     (case do_score calls r (Some m) errs of
        Inl e \<Rightarrow> Inl e
      | Inr (v, errs') \<Rightarrow> score_metrics calls r ms (scores(m \<mapsto> v)) errs')"

fun as_name :: "pyval \<Rightarrow> string option" where
  "as_name (PStr s) = Some s"
| "as_name _ = None"

definition join :: "string \<Rightarrow> string list \<Rightarrow> string" where
  "join sep xs = (case xs of [] \<Rightarrow> [] | y # ys \<Rightarrow> foldl (\<lambda>a b. a @ sep @ b) y ys)"

text \<open>\<^verbatim>\<open>metadata.metrics or []\<close> (line 394).\<close>

definition declared_metrics :: "metadata \<Rightarrow> string list" where
  "declared_metrics md = (case md_metrics md of None \<Rightarrow> [] | Some ms \<Rightarrow> ms)"

text \<open>The static fields of the record (lines 364-378) and the three of lines 379-381.\<close>

definition static_scores :: "config \<Rightarrow> task_result \<Rightarrow> metadata \<Rightarrow> namespace" where
  "static_scores cfg self md =
     [ ''id'' \<mapsto> task_id (tr_task self),
       ''task'' \<mapsto> PStr (task_name_of (tr_task self)),
       ''constraint'' \<mapsto> tr_constraint self,
       ''framework'' \<mapsto> md_framework md,
       ''version'' \<mapsto> (case md_version md of Some v \<Rightarrow> v | None \<Rightarrow> md_framework_version md),
       ''params'' \<mapsto> PStr (case md_framework_params md of Some p \<Rightarrow> p | None \<Rightarrow> []),
       ''fold'' \<mapsto> PInt (tr_fold self),
       ''mode'' \<mapsto> run_mode cfg,
       ''seed'' \<mapsto> md_seed md,
       ''app_version'' \<mapsto> app_version cfg,
       ''utc'' \<mapsto> utc_now cfg,
       ''metric'' \<mapsto> (case md_metric md of Some m \<Rightarrow> PStr m | None \<Rightarrow> PNone),
       ''duration'' \<mapsto> PNaN ]"

definition with_metares :: "(string \<times> pyval) list \<Rightarrow> namespace \<Rightarrow> namespace" where
  "with_metares meta_result scores =
     foldl (\<lambda>sc m. sc(m \<mapsto> (case map_of meta_result m of Some v \<Rightarrow> v | None \<Rightarrow> PNaN)))
       scores required_metares"

text \<open>
  \<^verbatim>\<open>TaskResult.compute_scores\<close> (lines 361-402). \<open>result\<close> and \<open>meta_result\<close> are its two
  arguments (\<open>None\<close> and the empty list for their defaults). After the loop: the primary
  metric is read from the record when the record has an entry of that name and scored
  otherwise (line 396); \<^verbatim>\<open>info\<close> is that of the result, joined with the scoring errors
  when there are any (lines 397-399); the remaining entries of \<open>meta_result\<close> are added
  where the record has none of that name (line 400).
\<close>

definition compute_scores ::
  "config \<Rightarrow> calls \<Rightarrow> disk \<Rightarrow> task_result \<Rightarrow> result option \<Rightarrow> (string \<times> pyval) list
     \<Rightarrow> error + namespace" where
  "compute_scores cfg calls d self result meta_result =
     (let md = get_metadata d self;
          scores = with_metares meta_result (static_scores cfg self md);
          r = (case result of None \<Rightarrow> get_result cfg d self | Some r' \<Rightarrow> r')
      in case score_metrics calls r (declared_metrics md) scores [] of
           Inl e \<Rightarrow> Inl e
         | Inr (scores, errs) \<Rightarrow>
             (let metric = (case scores ''metric'' of Some v \<Rightarrow> v | None \<Rightarrow> PNone);
                  primary =
                    (case as_name metric of
                       Some m \<Rightarrow> (case scores m of Some v \<Rightarrow> Inr (v, errs)
                                  | None \<Rightarrow> do_score calls r (Some m) errs)
                     | None \<Rightarrow> do_score calls r None errs)
              in case primary of
                   Inl e \<Rightarrow> Inl e
                 | Inr (res, errs) \<Rightarrow>
                     (let scores = scores(''result'' \<mapsto> res);
                          scores = scores(''info'' \<mapsto>
                            (if errs \<noteq> [] then
                               PStr (join ''; ''
                                 ((case info r of PStr s \<Rightarrow> if s \<noteq> [] then [s] else [] | _ \<Rightarrow> []) @ errs))
                             else info r))
                      in Inr (map_of (filter (\<lambda>(k, v). k \<notin> set required_metares) meta_result)
                                ++ scores))))"

section \<open>Scoreboard: the table, its printable form and its file\<close>

subsection \<open>Data frames\<close>

definition df_empty :: "frame \<Rightarrow> bool" where
  "df_empty df = (columns df = [] \<or> rows df = [])"

text \<open>The cell of a row under a column label; NaN where the row has no such column.\<close>

definition cell :: "string list \<Rightarrow> pyval list \<Rightarrow> string \<Rightarrow> pyval" where
  "cell cols row c = (case map_of (zip cols row) c of Some v \<Rightarrow> v | None \<Rightarrow> PNaN)"

definition reindex :: "string list \<Rightarrow> frame \<Rightarrow> frame" where
  "reindex cols df = \<lparr> columns = cols, rows = map (\<lambda>r. map (cell (columns df) r) cols) (rows df) \<rparr>"

text \<open>
  Removing repeated elements, the first occurrence kept. Two elements are the same when
  their keys are.
\<close>

fun keep_first :: "('a \<Rightarrow> 'k) \<Rightarrow> 'k set \<Rightarrow> 'a list \<Rightarrow> 'a list" where
  "keep_first key seen [] = []"
| "keep_first key seen (x # xs) =
     (if key x \<in> seen then keep_first key seen xs
      else x # keep_first key (insert (key x) seen) xs)"

text \<open>
  The type of a column. pandas holds a column of integers and floats (NaN is a float) as
  floats: where frames are made from records or put together, the integers of such a
  column become floats. \<open>column df j\<close> is the column at position \<open>j\<close>.
\<close>

definition is_float :: "pyval \<Rightarrow> bool" where
  "is_float v = (case v of PFloat x \<Rightarrow> True | PNaN \<Rightarrow> True | _ \<Rightarrow> False)"

definition is_number :: "pyval \<Rightarrow> bool" where
  "is_number v = (case v of PInt i \<Rightarrow> True | PFloat x \<Rightarrow> True | PNaN \<Rightarrow> True | _ \<Rightarrow> False)"

definition as_float :: "pyval \<Rightarrow> pyval" where
  "as_float v = (case v of PInt i \<Rightarrow> PFloat (of_int i) | _ \<Rightarrow> v)"

definition column :: "pyval list list \<Rightarrow> nat \<Rightarrow> pyval list" where
  "column rs j = map (\<lambda>r. if j < length r then r ! j else PNaN) rs"

definition float_dtype :: "pyval list \<Rightarrow> bool" where
  "float_dtype col = (list_all is_number col \<and> list_ex is_float col)"

definition unify_dtypes :: "frame \<Rightarrow> frame" where
  "unify_dtypes df =
     df \<lparr> rows := map (\<lambda>r. map (\<lambda>j. if float_dtype (column (rows df) j) then as_float (r ! j) else r ! j)
                            [0 ..< length r])
                  (rows df) \<rparr>"

text \<open>\<^verbatim>\<open>to_data_frame\<close> on a list of dictionaries: one column per key, one row per dictionary.\<close>

definition to_data_frame :: "(string \<times> pyval) list list \<Rightarrow> frame" where
  "to_data_frame recs =
     (let cols = keep_first (\<lambda>c. c) {} (concat (map (map fst) recs))
      in unify_dtypes
           \<lparr> columns = cols,
             rows = map (\<lambda>r. map (\<lambda>c. case map_of r c of Some v \<Rightarrow> v | None \<Rightarrow> PNaN) cols) recs \<rparr>)"

text \<open>
  \<^verbatim>\<open>DataFrame.append(other, sort=False)\<close>: the columns of the first frame, then those only
  the second has; the rows of both, each frame aligned to these columns when its own
  differ; the columns typed anew.
\<close>

definition align :: "string list \<Rightarrow> frame \<Rightarrow> frame" where
  "align cols df = (if columns df = cols then df else reindex cols df)"

definition df_append :: "frame \<Rightarrow> frame \<Rightarrow> frame" where
  "df_append a b =
     (let cols = columns a @ filter (\<lambda>c. c \<notin> set (columns a)) (columns b)
      in unify_dtypes \<lparr> columns = cols, rows = rows (align cols a) @ rows (align cols b) \<rparr>)"

text \<open>
  \<^verbatim>\<open>DataFrame.drop_duplicates()\<close>: a row equal in all columns to an earlier one goes. Cells
  are equal there as Python holds them equal, so that 0, 0.0 and \<^verbatim>\<open>False\<close> are one value,
  and the missing values \<^verbatim>\<open>None\<close> and NaN are one value: \<open>py_key\<close> sends equal cells to the
  same key.
\<close>

definition py_key :: "pyval \<Rightarrow> pyval" where
  "py_key v =
     (case v of
        PInt i \<Rightarrow> PFloat (of_int i)
      | PBool b \<Rightarrow> PFloat (if b then 1 else 0)
      | PNone \<Rightarrow> PNaN
      | _ \<Rightarrow> v)"

definition row_key :: "pyval list \<Rightarrow> pyval list" where
  "row_key r = map py_key r"

definition drop_duplicates :: "frame \<Rightarrow> frame" where
  "drop_duplicates df = df \<lparr> rows := keep_first row_key {} (rows df) \<rparr>"

subsection \<open>Texts, floats and files\<close>

text \<open>
  Python's and pandas' conversions between cells and texts are a parameter: \<open>fmt_1f x\<close>
  and \<open>fmt_6g x\<close> are the floats read back from \<^verbatim>\<open>"{:.1f}".format(x)\<close> and
  \<^verbatim>\<open>"{:.6g}".format(x)\<close>, \<open>float_str\<close> is \<^verbatim>\<open>str\<close> on a float, \<open>float_of_str\<close> is
  \<^verbatim>\<open>float\<close> on a text (\<open>None\<close> where it raises \<^verbatim>\<open>ValueError\<close>), \<open>obj_str\<close> is \<^verbatim>\<open>str\<close> on an
  object of the given type; \<open>csv_field\<close> is the text that a cell is written as in a
  file, and \<open>csv_parse col x\<close> is the cell that the text \<open>x\<close> is read as in a column of
  the texts \<open>col\<close>.
\<close>

record pyfloat =
  fmt_1f :: "real \<Rightarrow> real"
  fmt_6g :: "real \<Rightarrow> real"
  float_str :: "real \<Rightarrow> string"
  float_of_str :: "string \<Rightarrow> pyval option"
  obj_str :: "string \<Rightarrow> string"
  csv_field :: "pyval \<Rightarrow> string"
  csv_parse :: "string list \<Rightarrow> string \<Rightarrow> pyval"

text \<open>
  Modelled from the spec: \<^verbatim>\<open>read_csv\<close>, \<^verbatim>\<open>write_csv\<close> (datautils) and \<^verbatim>\<open>backup_file\<close>
  (utils), the "low-level CSV read/write and backup-file utilities". A file is the list
  of its lines, a line the list of its fields. The header of a file is its first line
  (no column when the file has no line). \<open>read_csv\<close> reads the lines below the header
  into the rows of a frame. \<open>write_csv\<close> writes the columns as a line when \<open>header\<close> is
  set, then one line for each row; in append mode these lines come after the lines the
  file has, otherwise they replace them. \<open>backup_file\<close> copies an existing file aside and
  does nothing when there is none.
\<close>

type_synonym csv = "string list list"

record filesystem =
  files :: "string \<rightharpoonup> csv"
  backups :: "(string \<times> csv) list"

definition csv_header :: "csv \<Rightarrow> string list" where
  "csv_header f = (case f of [] \<Rightarrow> [] | h # ls \<Rightarrow> h)"

definition csv_rows :: "pyfloat \<Rightarrow> frame \<Rightarrow> csv" where
  "csv_rows fl df = map (map (csv_field fl)) (rows df)"

definition read_csv :: "pyfloat \<Rightarrow> csv \<Rightarrow> frame" where
  "read_csv fl f =
     (let body = tl f;
          col = (\<lambda>j. map (\<lambda>l. if j < length l then l ! j else []) body)
      in \<lparr> columns = csv_header f,
           rows = map (\<lambda>l. map (\<lambda>j. csv_parse fl (col j) (l ! j)) [0 ..< length l]) body \<rparr>)"

definition backup_file :: "string \<Rightarrow> filesystem \<Rightarrow> filesystem" where
  "backup_file path st =
     (case files st path of
        None \<Rightarrow> st
      | Some old \<Rightarrow> st \<lparr> backups := backups st @ [(path, old)] \<rparr>)"

definition write_csv :: "pyfloat \<Rightarrow> frame \<Rightarrow> string \<Rightarrow> bool \<Rightarrow> bool \<Rightarrow> filesystem \<Rightarrow> filesystem" where
  "write_csv fl df path header append_mode st =
     (let old = (case files st path of Some f \<Rightarrow> f | None \<Rightarrow> []);
          written = (if header then [columns df] else []) @ csv_rows fl df
      in st \<lparr> files := (files st)(path \<mapsto> (if append_mode then old @ written else written)) \<rparr>)"

subsection \<open>Objects\<close>

text \<open>
  Frames and boards are objects: two names can denote the same one, and an assignment
  to a column changes the frame for all of them. The store holds the frames and the
  boards by address, and the file system: the score files by path and the backups made
  so far.
  \<^verbatim>\<open>self.scores\<close> is a frame or a list of score records.
\<close>

datatype scores_of = Table nat | Records "(string \<times> pyval) list list"

record scoreboard = scope +
  scores :: scores_of
  cached_df :: "nat option"
  cached_printable :: "nat option"

record store =
  frames :: "nat \<Rightarrow> frame"
  next_frame :: nat
  boards :: "nat \<Rightarrow> scoreboard"
  next_board :: nat
  fs :: filesystem

definition new_frame :: "frame \<Rightarrow> store \<Rightarrow> nat \<times> store" where
  "new_frame df st =
     (next_frame st, st \<lparr> frames := (frames st)(next_frame st := df), next_frame := Suc (next_frame st) \<rparr>)"

definition new_board :: "scoreboard \<Rightarrow> store \<Rightarrow> nat \<times> store" where
  "new_board b st =
     (next_board st, st \<lparr> boards := (boards st)(next_board st := b), next_board := Suc (next_board st) \<rparr>)"

definition set_cached_df :: "nat \<Rightarrow> nat \<Rightarrow> store \<Rightarrow> store" where
  "set_cached_df b a st = st \<lparr> boards := (boards st)(b := (boards st b) \<lparr> cached_df := Some a \<rparr>) \<rparr>"

definition set_cached_printable :: "nat \<Rightarrow> nat \<Rightarrow> store \<Rightarrow> store" where
  "set_cached_printable b a st =
     st \<lparr> boards := (boards st)(b := (boards st b) \<lparr> cached_printable := Some a \<rparr>) \<rparr>"

text \<open>The store before any object is made and any file written.\<close>

definition empty_frame :: frame where
  "empty_frame = \<lparr> columns = [], rows = [] \<rparr>"

definition empty_store :: store where
  "empty_store =
     \<lparr> frames = (\<lambda>a. empty_frame), next_frame = 0,
       boards = (\<lambda>b. \<lparr> framework_name = NoneName, benchmark_name = NoneName, task_name = NoneName,
                       scores_dir = [], scores = Records [], cached_df = None,
                       cached_printable = None \<rparr>),
       next_board = 0,
       fs = \<lparr> files = Map.empty, backups = [] \<rparr> \<rparr>"

text \<open>
  \<^verbatim>\<open>Scoreboard.load_df\<close> on a path (lines 79-85): the table read from the file, or the
  empty frame when there is no such file.
\<close>

definition load_df :: "pyfloat \<Rightarrow> string \<Rightarrow> store \<Rightarrow> nat \<times> store" where
  "load_df fl file st =
     new_frame (case files (fs st) file of Some f \<Rightarrow> read_csv fl f | None \<Rightarrow> empty_frame) st"

text \<open>
  \<^verbatim>\<open>Scoreboard.__init__\<close> (lines 107-113): the address of the board made. The directory
  is the configured one when none is given; the scores are loaded from the file of the
  scope when none are given.
\<close>

definition scoreboard_init ::
  "config \<Rightarrow> pyfloat \<Rightarrow> scores_of option \<Rightarrow> name \<Rightarrow> name \<Rightarrow> name \<Rightarrow> string \<Rightarrow> store
     \<Rightarrow> nat \<times> store" where
  "scoreboard_init cfg fl given framework benchmark task dir st =
     (let sc = \<lparr> framework_name = framework, benchmark_name = benchmark, task_name = task,
                  scores_dir = (if dir \<noteq> [] then dir else default_scores_dir cfg) \<rparr>;
          (s, st1) = (case given of
                        Some s \<Rightarrow> (s, st)
                      | None \<Rightarrow> (let (a, st') = load_df fl (score_file cfg sc) st in (Table a, st')))
      in new_board \<lparr> framework_name = framework, benchmark_name = benchmark, task_name = task,
                     scores_dir = scores_dir sc, scores = s, cached_df = None,
                     cached_printable = None \<rparr> st1)"

text \<open>
  \<^verbatim>\<open>Scoreboard.as_data_frame\<close> (lines 115-131) on the board at address \<open>b\<close>. The decorator
  \<^verbatim>\<open>cached\<close> keeps the object the method returned at its first call on a board and
  returns it at every later call. An empty frame is returned as it is (line 123), which
  is \<^verbatim>\<open>self.scores\<close> itself when that is a frame; otherwise \<^verbatim>\<open>reindex\<close> makes a new frame
  with the fixed columns first and the other columns sorted.
\<close>

definition as_data_frame :: "nat \<Rightarrow> store \<Rightarrow> nat \<times> store" where
  "as_data_frame b st =
     (case cached_df (boards st b) of
        Some a \<Rightarrow> (a, st)
      | None \<Rightarrow>
          (let (a, st1) = (case scores (boards st b) of
                             Table a \<Rightarrow> (a, st)
                           | Records recs \<Rightarrow> new_frame (to_data_frame recs) st);
               df = frames st1 a
           in if df_empty df then (a, set_cached_df b a st1)
              else
                (let dynamic_cols = sort (filter (\<lambda>c. c \<notin> set fixed_cols) (columns df));
                     (a', st2) = new_frame (reindex (fixed_cols @ dynamic_cols) df) st1
                 in (a', set_cached_df b a' st2))))"

subsection \<open>The printable form\<close>

text \<open>The three lambdas of lines 135-137.\<close>

definition str_print :: "pyval \<Rightarrow> pyval" where
  "str_print v = (if v \<in> {PNone, PStr [], PStr ''None''} \<or> v = PNaN then PStr [] else v)"

definition int_print :: "pyval \<Rightarrow> pyval" where
  "int_print v =
     (case v of PFloat x \<Rightarrow> PInt (if 0 \<le> x then \<lfloor>x\<rfloor> else \<lceil>x\<rceil>) | _ \<Rightarrow> str_print v)"

definition num_print :: "(real \<Rightarrow> real) \<Rightarrow> pyval \<Rightarrow> error + pyval" where
  "num_print fn v =
     (case v of
        PStr s \<Rightarrow> Inr PNone
      | PFloat x \<Rightarrow> Inr (PFloat (fn x))
      | PNaN \<Rightarrow> Inr PNaN
      | PInt i \<Rightarrow> Inr (PFloat (fn (of_int i)))
      | PBool b \<Rightarrow> Inr (PFloat (fn (if b then 1 else 0)))
      | _ \<Rightarrow> Inl (TypeError ''unsupported format string''))"

text \<open>\<^verbatim>\<open>astype(np.str)\<close> and \<^verbatim>\<open>astype(np.float)\<close> on one cell.\<close>

definition to_str :: "pyfloat \<Rightarrow> pyval \<Rightarrow> pyval" where
  "to_str fl v =
     PStr (case v of
             PStr s \<Rightarrow> s
           | PInt i \<Rightarrow> str_int i
           | PBool b \<Rightarrow> (if b then ''True'' else ''False'')
           | PFloat x \<Rightarrow> float_str fl x
           | PNaN \<Rightarrow> ''nan''
           | PNone \<Rightarrow> ''None''
           | PObj t \<Rightarrow> obj_str fl t)"

definition to_float :: "pyfloat \<Rightarrow> pyval \<Rightarrow> error + pyval" where
  "to_float fl v =
     (case v of
        PFloat x \<Rightarrow> Inr (PFloat x)
      | PNaN \<Rightarrow> Inr PNaN
      | PNone \<Rightarrow> Inr PNaN
      | PInt i \<Rightarrow> Inr (PFloat (of_int i))
      | PBool b \<Rightarrow> Inr (PFloat (if b then 1 else 0))
      | PStr s \<Rightarrow> (case float_of_str fl s of Some x \<Rightarrow> Inr x
                    | None \<Rightarrow> Inl (ValueError ''could not convert string to float''))
      | PObj t \<Rightarrow> Inl (TypeError ''float() argument must be a string or a number''))"

definition bind :: "error + 'a \<Rightarrow> ('a \<Rightarrow> error + 'b) \<Rightarrow> error + 'b" where
  "bind x f = (case x of Inl e \<Rightarrow> Inl e | Inr v \<Rightarrow> f v)"

fun map_cells :: "('a \<Rightarrow> error + 'b) \<Rightarrow> 'a list \<Rightarrow> error + 'b list" where
  "map_cells f [] = Inr []"
| "map_cells f (x # xs) = bind (f x) (\<lambda>y. bind (map_cells f xs) (\<lambda>ys. Inr (y # ys)))"

text \<open>
  \<^verbatim>\<open>df[col] = f(df[col])\<close>: \<^verbatim>\<open>KeyError\<close> when the frame has no such column; otherwise
  every cell of the column is replaced, in the frame itself.
\<close>

definition column_index :: "frame \<Rightarrow> string \<Rightarrow> nat option" where
  "column_index df c = (if c \<in> set (columns df) then Some (length (takeWhile (\<lambda>x. x \<noteq> c) (columns df))) else None)"

definition assign_col :: "(pyval \<Rightarrow> error + pyval) \<Rightarrow> string \<Rightarrow> frame \<Rightarrow> error + frame" where
  "assign_col f c df =
     (case column_index df c of
        None \<Rightarrow> Inl (KeyError c)
      | Some i \<Rightarrow>
          bind (map_cells (\<lambda>r. if i < length r then bind (f (r ! i)) (\<lambda>v. Inr (r[i := v])) else Inr r) (rows df))
            (\<lambda>rs. Inr (df \<lparr> rows := rs \<rparr>)))"

text \<open>\<^verbatim>\<open>df.select_dtypes(include=[np.float]).columns\<close>: the columns holding floats only.\<close>

definition float_columns :: "frame \<Rightarrow> string list" where
  "float_columns df =
     filter (\<lambda>c. list_all (\<lambda>r. is_float (cell (columns df) r c)) (rows df)) (columns df)"

definition force_str_cols :: "string list" where
  "force_str_cols = [''id'']"

definition nanable_int_cols :: "string list" where
  "nanable_int_cols = [''fold'', ''models_count'', ''seed'']"

definition low_precision_float_cols :: "string list" where
  "low_precision_float_cols = [''duration'', ''training_duration'', ''predict_duration'']"

text \<open>
  The four loops of lines 144-151 as one list of assignments, in their order. An
  exception stops the loops; the columns assigned before it stay assigned.
\<close>

definition printable_steps :: "pyfloat \<Rightarrow> frame \<Rightarrow> (string \<times> (pyval \<Rightarrow> error + pyval)) list" where
  "printable_steps fl df =
     map (\<lambda>c. (c, \<lambda>v. Inr (to_str fl (str_print v)))) force_str_cols @
     map (\<lambda>c. (c, \<lambda>v. Inr (to_str fl (int_print v)))) nanable_int_cols @
     map (\<lambda>c. (c, \<lambda>v. bind (to_float fl v) (\<lambda>x. bind (num_print (fmt_1f fl) x) (to_float fl))))
       low_precision_float_cols @
     map (\<lambda>c. (c, \<lambda>v. bind (num_print (fmt_6g fl) v) (to_float fl)))
       (filter (\<lambda>c. c \<notin> set (nanable_int_cols @ low_precision_float_cols)) (float_columns df))"

fun run_steps :: "(string \<times> (pyval \<Rightarrow> error + pyval)) list \<Rightarrow> frame \<Rightarrow> error option \<times> frame" where
  "run_steps [] df = (None, df)"
| "run_steps ((c, f) # steps) df =
     (case assign_col f c df of Inl e \<Rightarrow> (Some e, df) | Inr df' \<Rightarrow> run_steps steps df')"

text \<open>
  \<^verbatim>\<open>Scoreboard.as_printable_data_frame\<close> (lines 133-152), cached as well. \<open>df\<close> is the object
  that \<^verbatim>\<open>as_data_frame\<close> returns, and the assignments are made to it.
\<close>

definition as_printable_data_frame :: "pyfloat \<Rightarrow> nat \<Rightarrow> store \<Rightarrow> (error + nat) \<times> store" where
  "as_printable_data_frame fl b st =
     (case cached_printable (boards st b) of
        Some a \<Rightarrow> (Inr a, st)
      | None \<Rightarrow>
          (let (a, st1) = as_data_frame b st;
               df = frames st1 a;
               (err, df') = run_steps (printable_steps fl df) df;
               st2 = st1 \<lparr> frames := (frames st1)(a := df') \<rparr>
           in case err of
                Some e \<Rightarrow> (Inl e, st2)
              | None \<Rightarrow> (Inr a, set_cached_printable b a st2)))"

subsection \<open>Saving\<close>

text \<open>
  \<^verbatim>\<open>Scoreboard.save_df\<close> (lines 89-105). \<^verbatim>\<open>read_csv(path, nrows=1)\<close> gives the header of
  the file there. The frames of a board have the default index, so no index column is
  written.
\<close>

definition save_df :: "pyfloat \<Rightarrow> frame \<Rightarrow> string \<Rightarrow> bool \<Rightarrow> filesystem \<Rightarrow> filesystem" where
  "save_df fl data_frame path append_mode st =
     (let exists = (files st path \<noteq> None);
          new_format = (case files st path of
                          Some f \<Rightarrow> csv_header f \<noteq> columns data_frame
                        | None \<Rightarrow> False);
          st1 = (if new_format \<or> (exists \<and> \<not> append_mode) then backup_file path st else st);
          new_file = (\<not> exists \<or> \<not> append_mode \<or> new_format)
      in write_csv fl data_frame path new_file (\<not> new_file) st1)"

text \<open>\<^verbatim>\<open>Scoreboard.save\<close> (lines 157-158).\<close>

definition save :: "config \<Rightarrow> pyfloat \<Rightarrow> nat \<Rightarrow> bool \<Rightarrow> store \<Rightarrow> error option \<times> store" where
  "save cfg fl b append_mode st =
     (case as_printable_data_frame fl b st of
        (Inl e, st1) \<Rightarrow> (Some e, st1)
      | (Inr a, st1) \<Rightarrow>
          (None, st1 \<lparr> fs := save_df fl (frames st1 a) (score_file cfg (boards st1 b)) append_mode (fs st1) \<rparr>))"

subsection \<open>Merging\<close>

datatype board_or_df = Board nat | DataFrame nat

text \<open>
  \<^verbatim>\<open>Scoreboard.append\<close> (lines 160-169): the address of the new board, which has the
  scope of \<open>self\<close> and the merged frame as its scores.
\<close>

definition append_scores ::
  "config \<Rightarrow> pyfloat \<Rightarrow> nat \<Rightarrow> board_or_df \<Rightarrow> bool \<Rightarrow> store \<Rightarrow> nat \<times> store" where
  "append_scores cfg fl self other no_duplicates st =
     (let (to_append, st1) = (case other of
                                Board other_board \<Rightarrow> as_data_frame other_board st
                              | DataFrame a \<Rightarrow> (a, st));
          (mine, st2) = as_data_frame self st1;
          merged = df_append (frames st2 mine) (frames st2 to_append);
          merged = (if no_duplicates then drop_duplicates merged else merged);
          (a, st3) = new_frame merged st2
      in scoreboard_init cfg fl (Some (Table a))
           (framework_name (boards st3 self)) (benchmark_name (boards st3 self))
           (task_name (boards st3 self)) (scores_dir (boards st3 self)) st3)"

text \<open>The number of rows of the scores of a board.\<close>

definition row_count :: "nat \<Rightarrow> store \<Rightarrow> nat" where
  "row_count b st =
     (case scores (boards st b) of
        Table a \<Rightarrow> length (rows (frames st a))
      | Records recs \<Rightarrow> length recs)"

section \<open>Properties of evaluate\<close>

text \<open>
  C9: for every metric, whether a string or not, \<^verbatim>\<open>evaluate\<close> on a \<^verbatim>\<open>NoResult\<close> and on an
  \<^verbatim>\<open>ErrorResult\<close> (also one built from an error by its constructor) returns the pair
  (NaN, \<^verbatim>\<open>None\<close>): no error text is reported for the metric.
\<close>

theorem noresult_evaluate:
  "evaluate calls (NoResult i) metric = Inr (PNaN, None)
   \<and> evaluate calls (ErrorResult s) metric = Inr (PNaN, None)
   \<and> evaluate calls (error_result max_len qualname txt) metric = Inr (PNaN, None)"
  by (simp add: error_result_def Let_def)

text \<open>
  C10: on a \<^verbatim>\<open>ClassificationResult\<close> or a \<^verbatim>\<open>RegressionResult\<close>, a metric named as one
  of the fields of the object is not answered with "Unsupported metric": the call of
  the field raises, the exception is caught, and the pair returned is NaN with the text
  "scoring <name>: '<type>' object is not callable".
\<close>

theorem evaluate_noncallable_attribute:
  assumes "r = ClassificationResult df i \<or> r = RegressionResult df i"
    and "map_of (attr_fields r) m = Some tn"
  shows "evaluate calls r (Some m) = Inr (PNaN, Some (''scoring '' @ m @ '': '' @ not_callable tn))
       \<and> evaluate calls r (Some m)
           \<noteq> Inr (PNaN, Some (''Unsupported metric '' @ m @ '' for '' @ type_str (rtype r)))"
  using assms by (auto simp: hasattr_def call_attr_def)

text \<open>The metric \<^verbatim>\<open>info\<close> on a regression result whose \<^verbatim>\<open>info\<close> is \<^verbatim>\<open>None\<close>.\<close>

theorem evaluate_noncallable_attribute_witness:
  "map_of (attr_fields (RegressionResult \<lparr>columns = [''predictions'', ''truth''], rows = []\<rparr> None)) ''info''
     = Some ''NoneType''
   \<and> (\<forall>calls. evaluate calls
          (RegressionResult \<lparr>columns = [''predictions'', ''truth''], rows = []\<rparr> None) (Some ''info'')
     = Inr (PNaN, Some ''scoring info: 'NoneType' object is not callable''))"
proof -
  let ?r = "RegressionResult \<lparr>columns = [''predictions'', ''truth''], rows = []\<rparr> None"
  have a: "?r = ClassificationResult \<lparr>columns = [''predictions'', ''truth''], rows = []\<rparr> None
           \<or> ?r = RegressionResult \<lparr>columns = [''predictions'', ''truth''], rows = []\<rparr> None"
    by simp
  have b: "map_of (attr_fields ?r) ''info'' = Some ''NoneType''"
    by (simp add: result_fields_def info_type_def)
  show ?thesis
    using evaluate_noncallable_attribute [OF a b] b by (simp add: not_callable_def)
qed

lemma evaluate_string_total:
  "\<exists>v e. evaluate calls r (Some m) = Inr (v, e)"
proof (cases r)
  case (ClassificationResult df i)
  then show ?thesis by (cases "call_attr calls r m") auto
next
  case (RegressionResult df i)
  then show ?thesis by (cases "call_attr calls r m") auto
qed auto

lemma score_metrics_scores_all:
  "\<exists>sc' errs'. score_metrics calls r ms sc errs = Inr (sc', errs')
     \<and> (\<forall>m \<in> set ms. \<exists>v e. evaluate calls r (Some m) = Inr (v, e) \<and> sc' m = Some v
            \<and> (case e of None \<Rightarrow> True | Some t \<Rightarrow> t = [] \<or> t \<in> set errs'))
     \<and> (\<forall>k. k \<in> set ms \<or> sc' k = sc k)
     \<and> set errs \<subseteq> set errs'"
proof (induction ms arbitrary: sc errs)
  case Nil
  show ?case by simp
next
  case (Cons m ms)
  obtain v e where ev: "evaluate calls r (Some m) = Inr (v, e)"
    using evaluate_string_total by blast
  define errs1 where "errs1 = (case e of None \<Rightarrow> errs | Some t \<Rightarrow> if t \<noteq> [] then errs @ [t] else errs)"
  from Cons.IH [of "sc(m \<mapsto> v)" errs1]
  obtain sc' errs' where
    run: "score_metrics calls r ms (sc(m \<mapsto> v)) errs1 = Inr (sc', errs')"
    and each: "\<forall>m' \<in> set ms. \<exists>v' e'. evaluate calls r (Some m') = Inr (v', e') \<and> sc' m' = Some v'
            \<and> (case e' of None \<Rightarrow> True | Some t \<Rightarrow> t = [] \<or> t \<in> set errs')"
    and rest: "\<forall>k. k \<in> set ms \<or> sc' k = (sc(m \<mapsto> v)) k"
    and mono: "set errs1 \<subseteq> set errs'"
    by blast
  have step: "score_metrics calls r (m # ms) sc errs = Inr (sc', errs')"
    using run by (simp add: do_score_def ev errs1_def)
  have head_score: "sc' m = Some v"
  proof (cases "m \<in> set ms")
    case True
    with each ev show ?thesis by fastforce
  next
    case False
    with rest show ?thesis by (metis fun_upd_same)
  qed
  have head_err: "case e of None \<Rightarrow> True | Some t \<Rightarrow> t = [] \<or> t \<in> set errs'"
    using mono by (cases e) (auto simp: errs1_def split: if_splits)
  have errs_mono: "set errs \<subseteq> set errs'"
    using mono by (cases e) (auto simp: errs1_def split: if_splits)
  have others: "\<forall>k. k \<in> set (m # ms) \<or> sc' k = sc k"
    using rest by (metis fun_upd_other list.set_intros(1) list.set_intros(2))
  have all: "\<forall>m' \<in> set (m # ms). \<exists>v' e'. evaluate calls r (Some m') = Inr (v', e') \<and> sc' m' = Some v'
            \<and> (case e' of None \<Rightarrow> True | Some t \<Rightarrow> t = [] \<or> t \<in> set errs')"
    using each ev head_score head_err by auto
  from step all others errs_mono show ?case by blast
qed

text \<open>
  C4, as the code has it: for a metric that is a string, \<^verbatim>\<open>evaluate\<close> never raises. A
  \<^verbatim>\<open>NoResult\<close> or \<^verbatim>\<open>ErrorResult\<close> (the variants without a type) returns (NaN, \<^verbatim>\<open>None\<close>).
  A \<^verbatim>\<open>ClassificationResult\<close> or \<^verbatim>\<open>RegressionResult\<close> returns NaN with "Unsupported metric
  <m> for <type>" when the object has no attribute named \<open>m\<close>, and NaN with "scoring
  <m>: <message>" when calling the attribute raises. Hence the loop over the declared
  metrics runs to its end whatever the metrics do, and after it every declared metric
  has its entry in the record, which is the score \<^verbatim>\<open>evaluate\<close> returns for it; the error
  text of every metric that has one is among the scoring errors; the entries of other
  names and the errors collected before are kept.
\<close>

theorem evaluate_never_raises:
  "(\<exists>v e. evaluate calls r (Some m) = Inr (v, e))
   \<and> (rtype r = None \<longrightarrow> evaluate calls r (Some m) = Inr (PNaN, None))
   \<and> (rtype r \<noteq> None \<and> \<not> hasattr r m \<longrightarrow>
        evaluate calls r (Some m)
          = Inr (PNaN, Some (''Unsupported metric '' @ m @ '' for '' @ type_str (rtype r))))
   \<and> (rtype r \<noteq> None \<and> hasattr r m \<and> call_attr calls r m = Raises msg \<longrightarrow>
        evaluate calls r (Some m) = Inr (PNaN, Some (''scoring '' @ m @ '': '' @ msg)))
   \<and> (\<exists>sc' errs'. score_metrics calls r ms sc errs = Inr (sc', errs')
        \<and> (\<forall>m' \<in> set ms. \<exists>v e. evaluate calls r (Some m') = Inr (v, e) \<and> sc' m' = Some v
              \<and> (case e of None \<Rightarrow> True | Some t \<Rightarrow> t = [] \<or> t \<in> set errs'))
        \<and> (\<forall>k. k \<in> set ms \<or> sc' k = sc k)
        \<and> set errs \<subseteq> set errs')"
proof -
  have "rtype r = None \<longrightarrow> evaluate calls r (Some m) = Inr (PNaN, None)"
    by (cases r) auto
  moreover have "rtype r \<noteq> None \<and> \<not> hasattr r m \<longrightarrow>
        evaluate calls r (Some m)
          = Inr (PNaN, Some (''Unsupported metric '' @ m @ '' for '' @ type_str (rtype r)))"
    by (cases r) auto
  moreover have "rtype r \<noteq> None \<and> hasattr r m \<and> call_attr calls r m = Raises msg \<longrightarrow>
        evaluate calls r (Some m) = Inr (PNaN, Some (''scoring '' @ m @ '': '' @ msg))"
    by (cases r) auto
  ultimately show ?thesis
    using evaluate_string_total [of calls r m] score_metrics_scores_all [of calls r ms sc errs]
    by (intro conjI)
qed

text \<open>
  A regression result whose metric \<^verbatim>\<open>mae\<close> raises and whose other metrics return 1:
  \<^verbatim>\<open>acc\<close> is no attribute of it, \<^verbatim>\<open>mae\<close> is a method of it, and the loop over \<^verbatim>\<open>mae\<close> and
  \<^verbatim>\<open>mse\<close> scores both; and a \<^verbatim>\<open>NoResult\<close>.
\<close>

theorem evaluate_never_raises_witness:
  "rtype (RegressionResult \<lparr>columns = [''predictions'', ''truth''], rows = []\<rparr> None) \<noteq> None
   \<and> \<not> hasattr (RegressionResult \<lparr>columns = [''predictions'', ''truth''], rows = []\<rparr> None) ''acc''
   \<and> evaluate (\<lambda>r m. if m = ''mae'' then Raises ''boom'' else Returns (PFloat 1))
        (RegressionResult \<lparr>columns = [''predictions'', ''truth''], rows = []\<rparr> None) (Some ''acc'')
       = Inr (PNaN, Some ''Unsupported metric acc for DatasetType.regression'')
   \<and> hasattr (RegressionResult \<lparr>columns = [''predictions'', ''truth''], rows = []\<rparr> None) ''mae''
   \<and> evaluate (\<lambda>r m. if m = ''mae'' then Raises ''boom'' else Returns (PFloat 1))
        (RegressionResult \<lparr>columns = [''predictions'', ''truth''], rows = []\<rparr> None) (Some ''mae'')
       = Inr (PNaN, Some ''scoring mae: boom'')
   \<and> rtype (NoResult None) = None
   \<and> evaluate (\<lambda>r m. if m = ''mae'' then Raises ''boom'' else Returns (PFloat 1))
        (NoResult None) (Some ''mae'') = Inr (PNaN, None)
   \<and> score_metrics (\<lambda>r m. if m = ''mae'' then Raises ''boom'' else Returns (PFloat 1))
        (RegressionResult \<lparr>columns = [''predictions'', ''truth''], rows = []\<rparr> None)
        [''mae'', ''mse''] Map.empty []
       = Inr ([''mae'' \<mapsto> PNaN, ''mse'' \<mapsto> PFloat 1], [''scoring mae: boom''])"
proof -
  let ?r = "RegressionResult \<lparr>columns = [''predictions'', ''truth''], rows = []\<rparr> None"
  let ?c = "\<lambda>(r::result) (m::string). if m = ''mae'' then Raises ''boom'' else Returns (PFloat 1)"
  have h1: "\<not> hasattr ?r ''acc''"
    by (simp add: hasattr_def result_fields_def object_fields_def methods_def object_methods_def)
  have h2: "hasattr ?r ''mae''" "hasattr ?r ''mse''"
    by (simp_all add: hasattr_def methods_def)
  have h3: "call_attr ?c ?r ''mae'' = Raises ''boom''" "call_attr ?c ?r ''mse'' = Returns (PFloat 1)"
    by (simp_all add: call_attr_def method_call_def result_fields_def object_fields_def)
  have loop: "score_metrics ?c ?r [''mae'', ''mse''] Map.empty []
       = Inr ([''mae'' \<mapsto> PNaN, ''mse'' \<mapsto> PFloat 1], [''scoring mae: boom''])"
    by (simp add: do_score_def h2 h3)
  show ?thesis
    using evaluate_never_raises [of ?c ?r "''acc''" "''boom''" "[''mae'', ''mse'']" Map.empty "[]"]
          evaluate_never_raises [of ?c ?r "''mae''" "''boom''" "[''mae'', ''mse'']" Map.empty "[]"]
          evaluate_never_raises [of ?c "NoResult None" "''mae''" "''boom''" "[]" Map.empty "[]"]
          h1 h2 h3 loop
    by simp
qed

text \<open>
  Against C4 as stated: \<^verbatim>\<open>NoResult\<close> computes no metric \<^verbatim>\<open>acc\<close>, and a regression result
  computes no metric \<^verbatim>\<open>info\<close>, yet neither answers with "Unsupported metric".
\<close>

theorem evaluate_unsupported_counterexample:
  "''acc'' \<notin> set (metric_methods (NoResult (Some ''Missing predictions.'')))
   \<and> evaluate (\<lambda>r m. Returns PNaN) (NoResult (Some ''Missing predictions.'')) (Some ''acc'')
       \<noteq> Inr (PNaN, Some (''Unsupported metric acc for ''
                           @ type_str (rtype (NoResult (Some ''Missing predictions.'')))))
   \<and> ''info'' \<notin> set (metric_methods
                      (RegressionResult \<lparr>columns = [''predictions'', ''truth''], rows = []\<rparr> None))
   \<and> evaluate (\<lambda>r m. Returns PNaN)
        (RegressionResult \<lparr>columns = [''predictions'', ''truth''], rows = []\<rparr> None) (Some ''info'')
       \<noteq> Inr (PNaN, Some (''Unsupported metric info for ''
                           @ type_str (rtype (RegressionResult
                                \<lparr>columns = [''predictions'', ''truth''], rows = []\<rparr> None))))"
  by (simp add: hasattr_def call_attr_def result_fields_def)

section \<open>Properties of compute_scores\<close>

lemma score_metrics_noresult:
  "score_metrics calls (NoResult i) ms sc errs
     = Inr (\<lambda>k. if k \<in> set ms then Some PNaN else sc k, errs)"
proof (induction ms arbitrary: sc)
  case Nil
  show ?case by simp
next
  case (Cons m ms)
  have "(\<lambda>k. if k \<in> set ms then Some PNaN else (sc(m \<mapsto> PNaN)) k)
        = (\<lambda>k. if k \<in> set (m # ms) then Some PNaN else sc k)"
    by (rule ext) simp
  then show ?case by (simp add: do_score_def Cons.IH)
qed

lemma static_scores_metric:
  "with_metares meta_result (static_scores cfg self md) ''metric''
     = Some (case md_metric md of Some m \<Rightarrow> PStr m | None \<Rightarrow> PNone)"
  by (simp add: with_metares_def static_scores_def required_metares_def)

lemma str_int_0: "str_int 0 = ''0''"
  by (simp add: str_int_def digit_char_def)

lemma example_paths:
  "predictions_file \<lparr>tr_task = \<lparr>task_id = PStr ''t'', task_name_of = ''t''\<rparr>, tr_fold = 0,
      tr_constraint = PStr ''1h'', tr_predictions_dir = ''p''\<rparr> = ''p/t/0/predictions.csv''"
  "metadata_file \<lparr>tr_task = \<lparr>task_id = PStr ''t'', task_name_of = ''t''\<rparr>, tr_fold = 0,
      tr_constraint = PStr ''1h'', tr_predictions_dir = ''p''\<rparr> = ''p/t/0/metadata.json''"
  by (simp_all add: predictions_file_def metadata_file_def path_join_def path_join2_def str_int_0)

text \<open>
  C5, as the code has it: when the predictions file of a task and fold is absent,
  \<^verbatim>\<open>compute_scores\<close> returns a record (it does not raise) whose \<^verbatim>\<open>result\<close> is NaN, whose
  \<^verbatim>\<open>info\<close> is "Missing predictions." and in which every declared metric is NaN,
  provided that no declared metric is named \<^verbatim>\<open>info\<close> and that the primary metric, when
  the metadata names one, is a declared metric or is not the name of an entry the
  record holds before the metrics are scored. The metadata file may be there or not.
\<close>

theorem missing_predictions_scores:
  assumes absent: "predictions_files d (predictions_file self) = None"
    and no_info: "''info'' \<notin> set (declared_metrics (get_metadata d self))"
    and primary: "case md_metric (get_metadata d self) of
                    None \<Rightarrow> True
                  | Some pm \<Rightarrow> pm \<in> set (declared_metrics (get_metadata d self))
                      \<or> with_metares meta_result (static_scores cfg self (get_metadata d self)) pm = None"
  shows "\<exists>rec. compute_scores cfg calls d self None meta_result = Inr rec
           \<and> rec ''result'' = Some PNaN
           \<and> rec ''info'' = Some (PStr ''Missing predictions.'')
           \<and> (\<forall>m \<in> set (declared_metrics (get_metadata d self)). rec m = Some PNaN)"
proof -
  let ?md = "get_metadata d self"
  let ?ms = "declared_metrics ?md"
  let ?s0 = "with_metares meta_result (static_scores cfg self ?md)"
  let ?r = "NoResult (Some ''Missing predictions.'')"
  let ?sc = "\<lambda>k. if k \<in> set ?ms then Some PNaN else ?s0 k"
  let ?rest = "map_of (filter (\<lambda>(k, v). k \<notin> set required_metares) meta_result)"
  let ?rec = "?rest ++ (?sc(''result'' \<mapsto> PNaN, ''info'' \<mapsto> PStr ''Missing predictions.''))"
  have r: "get_result cfg d self = ?r"
    by (simp add: get_result_def load_predictions_def absent)
  have loop: "score_metrics calls ?r ?ms ?s0 [] = Inr (?sc, [])"
    by (rule score_metrics_noresult)
  have prim: "(case as_name (case ?sc ''metric'' of Some v \<Rightarrow> v | None \<Rightarrow> PNone) of
                 Some m \<Rightarrow> (case ?sc m of Some v \<Rightarrow> Inr (v, [])
                            | None \<Rightarrow> do_score calls ?r (Some m) [])
               | None \<Rightarrow> do_score calls ?r None []) = Inr (PNaN, [])"
  proof (cases "''metric'' \<in> set ?ms")
    case True
    then show ?thesis by (simp add: do_score_def)
  next
    case False
    show ?thesis
    proof (cases "md_metric ?md")
      case None
      with False show ?thesis by (simp add: static_scores_metric do_score_def)
    next
      case (Some pm)
      with primary have "pm \<in> set ?ms \<or> ?s0 pm = None" by simp
      with False Some show ?thesis by (auto simp: static_scores_metric do_score_def)
    qed
  qed
  have "compute_scores cfg calls d self None meta_result = Inr ?rec"
    unfolding compute_scores_def Let_def r option.case loop sum.case prod.case prim
    by simp
  moreover have "?rec ''result'' = Some PNaN" by (simp add: map_add_def)
  moreover have "?rec ''info'' = Some (PStr ''Missing predictions.'')" by (simp add: map_add_def)
  moreover have "\<forall>m \<in> set ?ms. ?rec m = Some PNaN"
    using no_info by (auto simp: map_add_def)
  ultimately show ?thesis by (intro exI conjI)
qed

text \<open>Task \<^verbatim>\<open>t\<close>, fold 0, no predictions file, metadata declaring \<^verbatim>\<open>auc\<close> and \<^verbatim>\<open>acc\<close>.\<close>

theorem missing_predictions_scores_witness:
  "\<forall>cfg calls meta_result. \<exists>rec.
     compute_scores cfg calls
       \<lparr>predictions_files = Map.empty,
        metadata_files = [''p/t/0/metadata.json'' \<mapsto>
          \<lparr>md_framework = PStr ''fw'', md_version = None, md_framework_version = PStr ''1.0'',
           md_framework_params = None, md_seed = PInt 1, md_metric = Some ''auc'',
           md_metrics = Some [''auc'', ''acc'']\<rparr>]\<rparr>
       \<lparr>tr_task = \<lparr>task_id = PStr ''t'', task_name_of = ''t''\<rparr>, tr_fold = 0,
        tr_constraint = PStr ''1h'', tr_predictions_dir = ''p''\<rparr>
       None meta_result = Inr rec
     \<and> rec ''result'' = Some PNaN \<and> rec ''info'' = Some (PStr ''Missing predictions.'')
     \<and> rec ''auc'' = Some PNaN \<and> rec ''acc'' = Some PNaN"
proof (intro allI)
  fix cfg calls meta_result
  let ?d = "\<lparr>predictions_files = Map.empty,
        metadata_files = [''p/t/0/metadata.json'' \<mapsto>
          \<lparr>md_framework = PStr ''fw'', md_version = None, md_framework_version = PStr ''1.0'',
           md_framework_params = None, md_seed = PInt 1, md_metric = Some ''auc'',
           md_metrics = Some [''auc'', ''acc'']\<rparr>]\<rparr>"
  let ?self = "\<lparr>tr_task = \<lparr>task_id = PStr ''t'', task_name_of = ''t''\<rparr>, tr_fold = 0,
        tr_constraint = PStr ''1h'', tr_predictions_dir = ''p''\<rparr>"
  have md: "get_metadata ?d ?self =
          \<lparr>md_framework = PStr ''fw'', md_version = None, md_framework_version = PStr ''1.0'',
           md_framework_params = None, md_seed = PInt 1, md_metric = Some ''auc'',
           md_metrics = Some [''auc'', ''acc'']\<rparr>"
    by (simp add: get_metadata_def load_metadata_def example_paths)
  have h1: "predictions_files ?d (predictions_file ?self) = None" by simp
  have h2: "''info'' \<notin> set (declared_metrics (get_metadata ?d ?self))"
    unfolding md by (simp add: declared_metrics_def)
  have h3: "case md_metric (get_metadata ?d ?self) of
              None \<Rightarrow> True
            | Some pm \<Rightarrow> pm \<in> set (declared_metrics (get_metadata ?d ?self))
                \<or> with_metares meta_result (static_scores cfg ?self (get_metadata ?d ?self)) pm = None"
    unfolding md by (simp add: declared_metrics_def)
  from missing_predictions_scores [OF h1 h2 h3, of calls]
  show "\<exists>rec. compute_scores cfg calls ?d ?self None meta_result = Inr rec
     \<and> rec ''result'' = Some PNaN \<and> rec ''info'' = Some (PStr ''Missing predictions.'')
     \<and> rec ''auc'' = Some PNaN \<and> rec ''acc'' = Some PNaN"
    unfolding md by (auto simp: declared_metrics_def)
qed

text \<open>
  Against C5 as stated: with no predictions file and a metadata file that declares a
  metric named \<^verbatim>\<open>info\<close> and names \<^verbatim>\<open>task\<close> as the primary metric, the record has the
  task's name as its \<^verbatim>\<open>result\<close>, and the declared metric \<^verbatim>\<open>info\<close> holds the text
  "Missing predictions.": neither is NaN.
\<close>

theorem missing_predictions_scores_counterexample:
  "\<forall>cfg calls.
     map_sum id (\<lambda>rec. (rec ''result'', rec ''info''))
       (compute_scores cfg calls
         \<lparr>predictions_files = Map.empty,
          metadata_files = [''p/t/0/metadata.json'' \<mapsto>
            \<lparr>md_framework = PStr ''fw'', md_version = None, md_framework_version = PStr ''1.0'',
             md_framework_params = None, md_seed = PInt 1, md_metric = Some ''task'',
             md_metrics = Some [''info'']\<rparr>]\<rparr>
         \<lparr>tr_task = \<lparr>task_id = PStr ''t'', task_name_of = ''t''\<rparr>, tr_fold = 0,
          tr_constraint = PStr ''1h'', tr_predictions_dir = ''p''\<rparr>
         None [])
     = Inr (Some (PStr ''t''), Some (PStr ''Missing predictions.''))"
  by (simp add: compute_scores_def get_metadata_def load_metadata_def get_result_def
      load_predictions_def example_paths declared_metrics_def do_score_def static_scores_def
      with_metares_def required_metares_def Let_def)

text \<open>
  C1, on the code: when the predictions file is read into a frame, so that the result
  is a \<^verbatim>\<open>ClassificationResult\<close> or a \<^verbatim>\<open>RegressionResult\<close>, and the metadata file is
  absent, \<^verbatim>\<open>compute_scores\<close> returns no record: the primary metric is \<^verbatim>\<open>None\<close>, line 396
  passes it to \<^verbatim>\<open>evaluate\<close>, and \<^verbatim>\<open>hasattr\<close> raises \<^verbatim>\<open>TypeError\<close>.
\<close>

theorem compute_scores_without_metadata:
  assumes "metadata_files d (metadata_file self) = None"
    and "predictions_files d (predictions_file self) = Some (Inr df)"
  shows "compute_scores cfg calls d self None meta_result
           = Inl (TypeError ''hasattr(): attribute name must be string'')"
  using assms
  by (simp add: compute_scores_def get_metadata_def load_metadata_def get_result_def
      load_predictions_def empty_metadata_def declared_metrics_def do_score_def static_scores_def
      with_metares_def required_metares_def Let_def)

text \<open>Task \<^verbatim>\<open>t\<close>, fold 0: a regression predictions file of one row and no metadata file.\<close>

theorem compute_scores_without_metadata_witness:
  "\<forall>cfg calls meta_result.
     compute_scores cfg calls
       \<lparr>predictions_files = [''p/t/0/predictions.csv'' \<mapsto>
           Inr \<lparr>columns = [''predictions'', ''truth''], rows = [[PStr ''1.5'', PStr ''1.0'']]\<rparr>],
        metadata_files = Map.empty\<rparr>
       \<lparr>tr_task = \<lparr>task_id = PStr ''t'', task_name_of = ''t''\<rparr>, tr_fold = 0,
        tr_constraint = PStr ''1h'', tr_predictions_dir = ''p''\<rparr>
       None meta_result
     = Inl (TypeError ''hasattr(): attribute name must be string'')"
proof (intro allI)
  fix cfg calls meta_result
  let ?df = "\<lparr>columns = [''predictions'', ''truth''], rows = [[PStr ''1.5'', PStr ''1.0'']]\<rparr>"
  let ?d = "\<lparr>predictions_files = [''p/t/0/predictions.csv'' \<mapsto> Inr ?df],
        metadata_files = Map.empty\<rparr>"
  let ?self = "\<lparr>tr_task = \<lparr>task_id = PStr ''t'', task_name_of = ''t''\<rparr>, tr_fold = 0,
        tr_constraint = PStr ''1h'', tr_predictions_dir = ''p''\<rparr>"
  have h1: "metadata_files ?d (metadata_file ?self) = None" by simp
  have h2: "predictions_files ?d (predictions_file ?self) = Some (Inr ?df)"
    by (simp add: example_paths)
  show "compute_scores cfg calls ?d ?self None meta_result
     = Inl (TypeError ''hasattr(): attribute name must be string'')"
    by (rule compute_scores_without_metadata [OF h1 h2])
qed

section \<open>Properties of the naming conventions\<close>

text \<open>
  C3, on the code: the identity read from a predictions path whose directory is named
  as the claim says. With the separator \<^verbatim>\<open>_\<close> or \<^verbatim>\<open>.\<close>, with or without the datetime
  suffix, directly above the file or one level higher, the basename yields framework,
  task and fold, but the directory yields nothing: \<^verbatim>\<open>constraint\<close> and \<^verbatim>\<open>benchmark\<close> are
  \<^verbatim>\<open>None\<close>. The folder pattern matches only a path that starts with the directory, has a
  further component below it, and whose datetime is a digit, 8, T, a digit and 6 (last
  line).
\<close>

theorem path_identity_folder_ignored:
  "path_identity ''_'' ''/fw_bench_1h_local/fw_iris_0.csv''
     = Some \<lparr>id_framework = ''fw'', id_task = ''iris'', id_fold = 0,
             id_constraint = None, id_benchmark = None\<rparr>
   \<and> path_identity ''_'' ''/fw_bench_1h_local_20200101T120000/fw_iris_0.csv''
     = Some \<lparr>id_framework = ''fw'', id_task = ''iris'', id_fold = 0,
             id_constraint = None, id_benchmark = None\<rparr>
   \<and> path_identity ''.'' ''/fw.bench.1h.local.20200101T120000/fw.iris.0.csv''
     = Some \<lparr>id_framework = ''fw'', id_task = ''iris'', id_fold = 0,
             id_constraint = None, id_benchmark = None\<rparr>
   \<and> path_identity ''_'' ''/fw_bench_1h_local_20200101T120000/predictions/fw_iris_0.csv''
     = Some \<lparr>id_framework = ''fw'', id_task = ''iris'', id_fold = 0,
             id_constraint = None, id_benchmark = None\<rparr>
   \<and> path_identity ''_'' ''/fw_bench_1h_local_18T26/predictions/fw_iris_0.csv''
     = Some \<lparr>id_framework = ''fw'', id_task = ''iris'', id_fold = 0,
             id_constraint = Some ''1h'', id_benchmark = Some ''bench''\<rparr>"
  by code_simp

lemma score_file_name_example:
  "score_file_name ''-''
      \<lparr>framework_name = Name ''fw'', benchmark_name = NoneName, task_name = Name ''t'',
       scores_dir = ''scores''\<rparr> = ''fw-task_t.csv''"
  by (simp add: score_file_name_def)

lemma first_match_example:
  "first_match (scoreboard_patterns ''-'') ''fw-task_t.csv'' = Some [(''framework'', ''fw-task_t'')]"
  by code_simp

lemma path_split_example:
  "path_split ''scores/fw-task_t.csv'' = (''scores'', ''fw-task_t.csv'')"
  by code_simp

text \<open>
  C7, on the code: the file name of the scope (framework \<^verbatim>\<open>fw\<close>, task \<^verbatim>\<open>t\<close>) has the
  separator after the framework and an underscore after \<^verbatim>\<open>task\<close>: \<^verbatim>\<open>fw-task_t.csv\<close> for
  the separator \<^verbatim>\<open>-\<close>, \<^verbatim>\<open>fw.task_t.csv\<close> for the separator \<^verbatim>\<open>.\<close>. With the separator
  \<^verbatim>\<open>-\<close>, \<^verbatim>\<open>from_file\<close> reads the file of that scope as the file of a framework named
  \<^verbatim>\<open>fw-task_t\<close>, with no task.
\<close>

theorem score_file_not_recognised:
  "score_file_name ''-''
      \<lparr>framework_name = Name ''fw'', benchmark_name = NoneName, task_name = Name ''t'',
       scores_dir = ''scores''\<rparr> = ''fw-task_t.csv''
   \<and> score_file_name ''.''
      \<lparr>framework_name = Name ''fw'', benchmark_name = NoneName, task_name = Name ''t'',
       scores_dir = ''scores''\<rparr> = ''fw.task_t.csv''
   \<and> from_file (cfg \<lparr>token_separator := ''-''\<rparr>)
        (score_file (cfg \<lparr>token_separator := ''-''\<rparr>)
           \<lparr>framework_name = Name ''fw'', benchmark_name = NoneName, task_name = Name ''t'',
            scores_dir = ''scores''\<rparr>)
      = Some \<lparr>framework_name = Name ''fw-task_t'', benchmark_name = FalseName,
              task_name = FalseName, scores_dir = ''scores''\<rparr>"
  by (simp add: score_file_def from_file_def score_file_name_example first_match_example
        path_split_example path_join_def path_join2_def group_or_false_def)
     (simp add: score_file_name_def)

section \<open>Properties of the Scoreboard\<close>

text \<open>
  C6: what \<^verbatim>\<open>save_df\<close> leaves at the path and among the backups. No file there: the
  header and the rows of the frame are written, and nothing is backed up. A file with
  another header: it is backed up and replaced by the header and the rows of the frame,
  whether append was asked for or not. A file with the same header and append asked
  for: the rows of the frame, and no header line, are added below the lines the file
  has; nothing is backed up. A file and no append asked for: it is backed up and
  replaced.
\<close>

theorem save_df_modes:
  "(files st path = None \<longrightarrow>
      files (save_df fl df path append_mode st) path = Some (columns df # csv_rows fl df)
      \<and> backups (save_df fl df path append_mode st) = backups st)
   \<and> (files st path = Some old \<and> csv_header old \<noteq> columns df \<longrightarrow>
      files (save_df fl df path append_mode st) path = Some (columns df # csv_rows fl df)
      \<and> backups (save_df fl df path append_mode st) = backups st @ [(path, old)])
   \<and> (files st path = Some old \<and> csv_header old = columns df \<and> append_mode \<longrightarrow>
      files (save_df fl df path append_mode st) path = Some (old @ csv_rows fl df)
      \<and> backups (save_df fl df path append_mode st) = backups st)
   \<and> (files st path = Some old \<and> \<not> append_mode \<longrightarrow>
      files (save_df fl df path append_mode st) path = Some (columns df # csv_rows fl df)
      \<and> backups (save_df fl df path append_mode st) = backups st @ [(path, old)])"
  by (auto simp: save_df_def write_csv_def backup_file_def Let_def)

text \<open>
  A file \<^verbatim>\<open>s/results.csv\<close> with the header \<^verbatim>\<open>id\<close> and one row: saved over with a wider
  frame in append mode, with a frame of the same header in append mode, and with that
  frame without append; and the same frame saved where there is no file.
\<close>

theorem save_df_modes_witness:
  "\<forall>fl.
   files (save_df fl \<lparr>columns = [''id'', ''acc''], rows = [[PStr ''b'', PNaN]]\<rparr> ''s/results.csv'' True
      \<lparr>files = [''s/results.csv'' \<mapsto> [[''id''], [''a'']]], backups = []\<rparr>)
     ''s/results.csv''
     = Some [[''id'', ''acc''], [csv_field fl (PStr ''b''), csv_field fl PNaN]]
   \<and> backups (save_df fl \<lparr>columns = [''id'', ''acc''], rows = [[PStr ''b'', PNaN]]\<rparr> ''s/results.csv'' True
      \<lparr>files = [''s/results.csv'' \<mapsto> [[''id''], [''a'']]], backups = []\<rparr>)
     = [(''s/results.csv'', [[''id''], [''a'']])]
   \<and> files (save_df fl \<lparr>columns = [''id''], rows = [[PStr ''b'']]\<rparr> ''s/results.csv'' True
      \<lparr>files = [''s/results.csv'' \<mapsto> [[''id''], [''a'']]], backups = []\<rparr>)
     ''s/results.csv''
     = Some [[''id''], [''a''], [csv_field fl (PStr ''b'')]]
   \<and> backups (save_df fl \<lparr>columns = [''id''], rows = [[PStr ''b'']]\<rparr> ''s/results.csv'' True
      \<lparr>files = [''s/results.csv'' \<mapsto> [[''id''], [''a'']]], backups = []\<rparr>)
     = []
   \<and> files (save_df fl \<lparr>columns = [''id''], rows = [[PStr ''b'']]\<rparr> ''s/results.csv'' False
      \<lparr>files = [''s/results.csv'' \<mapsto> [[''id''], [''a'']]], backups = []\<rparr>)
     ''s/results.csv''
     = Some [[''id''], [csv_field fl (PStr ''b'')]]
   \<and> backups (save_df fl \<lparr>columns = [''id''], rows = [[PStr ''b'']]\<rparr> ''s/results.csv'' False
      \<lparr>files = [''s/results.csv'' \<mapsto> [[''id''], [''a'']]], backups = []\<rparr>)
     = [(''s/results.csv'', [[''id''], [''a'']])]
   \<and> files (save_df fl \<lparr>columns = [''id''], rows = [[PStr ''b'']]\<rparr> ''s/results.csv'' True
      \<lparr>files = Map.empty, backups = []\<rparr>) ''s/results.csv''
     = Some [[''id''], [csv_field fl (PStr ''b'')]]
   \<and> backups (save_df fl \<lparr>columns = [''id''], rows = [[PStr ''b'']]\<rparr> ''s/results.csv'' True
      \<lparr>files = Map.empty, backups = []\<rparr>)
     = []"
proof
  fix fl
  let ?old = "[[''id''], [''a'']]"
  let ?st = "\<lparr>files = [''s/results.csv'' \<mapsto> ?old], backups = []\<rparr>"
  let ?new = "\<lparr>columns = [''id''], rows = [[PStr ''b'']]\<rparr>"
  let ?wide = "\<lparr>columns = [''id'', ''acc''], rows = [[PStr ''b'', PNaN]]\<rparr>"
  show "files (save_df fl ?wide ''s/results.csv'' True ?st) ''s/results.csv''
     = Some [[''id'', ''acc''], [csv_field fl (PStr ''b''), csv_field fl PNaN]]
   \<and> backups (save_df fl ?wide ''s/results.csv'' True ?st) = [(''s/results.csv'', ?old)]
   \<and> files (save_df fl ?new ''s/results.csv'' True ?st) ''s/results.csv''
     = Some [[''id''], [''a''], [csv_field fl (PStr ''b'')]]
   \<and> backups (save_df fl ?new ''s/results.csv'' True ?st) = []
   \<and> files (save_df fl ?new ''s/results.csv'' False ?st) ''s/results.csv''
     = Some [[''id''], [csv_field fl (PStr ''b'')]]
   \<and> backups (save_df fl ?new ''s/results.csv'' False ?st) = [(''s/results.csv'', ?old)]
   \<and> files (save_df fl ?new ''s/results.csv'' True \<lparr>files = Map.empty, backups = []\<rparr>) ''s/results.csv''
     = Some [[''id''], [csv_field fl (PStr ''b'')]]
   \<and> backups (save_df fl ?new ''s/results.csv'' True \<lparr>files = Map.empty, backups = []\<rparr>) = []"
    using save_df_modes [of ?st "''s/results.csv''" fl ?wide True ?old]
          save_df_modes [of ?st "''s/results.csv''" fl ?new True ?old]
          save_df_modes [of ?st "''s/results.csv''" fl ?new False ?old]
          save_df_modes [of "\<lparr>files = Map.empty, backups = []\<rparr>" "''s/results.csv''" fl ?new True ?old]
    by (simp add: csv_rows_def csv_header_def)
qed

lemma keep_first_covered: "key ` set ys \<subseteq> S \<Longrightarrow> keep_first key S ys = []"
  by (induction ys arbitrary: S) auto

lemma keep_first_append:
  "keep_first key S (xs @ ys) = keep_first key S xs @ keep_first key (S \<union> key ` set xs) ys"
  by (induction xs arbitrary: S) (auto simp: insert_absorb)

lemma keep_first_twice: "keep_first key S (xs @ xs) = keep_first key S xs"
  by (simp add: keep_first_append keep_first_covered)







lemma length_unify: "length (rows (unify_dtypes df)) = length (rows df)"
  by (simp add: unify_dtypes_def)



lemmas board_defs =
  scoreboard_init_def empty_store_def empty_frame_def new_board_def new_frame_def
  append_scores_def as_data_frame_def set_cached_df_def set_cached_printable_def
  to_data_frame_def unify_dtypes_def column_def float_dtype_def is_number_def is_float_def
  as_float_def reindex_def cell_def df_empty_def fixed_cols_def df_append_def align_def
  drop_duplicates_def row_key_def py_key_def row_count_def Let_def

lemmas print_defs =
  save_def as_printable_data_frame_def printable_steps_def force_str_cols_def
  nanable_int_cols_def low_precision_float_cols_def float_columns_def
  assign_col_def column_index_def bind_def str_print_def int_print_def num_print_def
  to_str_def to_float_def save_df_def write_csv_def csv_rows_def csv_header_def backup_file_def
  score_file_def score_file_name_def results_file_def path_join_def path_join2_def
  str_int_def digit_char_def




text \<open>
  C2, on the code: a board of one score record (task \<^verbatim>\<open>t\<close>, fold 0). Its table is read
  with \<^verbatim>\<open>as_data_frame\<close>, the board is saved, and the table is read again. The save
  raises nothing; the second reading returns the same object as the first; its cell
  \<^verbatim>\<open>fold\<close>, the integer 0 before the save, is the text \<^verbatim>\<open>0\<close> after it; so the table
  after the save is not the table before it.
\<close>

theorem save_formats_cached_table:
  "let (b, st0) = scoreboard_init cfg fl (Some (Records [[(''id'', PStr ''t''), (''fold'', PInt 0)]]))
                    NoneName NoneName NoneName ''scores'' empty_store;
       (a, st1) = as_data_frame b st0;
       (err, st2) = save cfg fl b False st1;
       (a', st3) = as_data_frame b st2
   in err = None \<and> a' = a
      \<and> cell (columns (frames st1 a)) (hd (rows (frames st1 a))) ''fold'' = PInt 0
      \<and> cell (columns (frames st3 a')) (hd (rows (frames st3 a'))) ''fold'' = PStr ''0''
      \<and> frames st3 a' \<noteq> frames st1 a"
  by (simp add: board_defs print_defs)

end
